theory Spec2Isabelle
  imports Main
begin

section \<open>The Entry screen of the mobile client (app/screens/entry/entry.js)\<close>

text \<open>
  The component is modelled by explicit state passing over one record, the world: the
  instance (\<open>this.state\<close>, \<open>this.unsubscribeFromStore\<close>, the props it reads), the
  module-level objects it reads (\<open>app\<close>, \<open>store\<close>, \<open>PushNotifications\<close>,
  \<open>Platform\<close>, \<open>AppState\<close>), the promises it creates, and a chronological log of
  calls. Every method of the class appends \<open>Enter m\<close> to the log when it is entered, and
  every call that leaves the file appends its own entry, so that order and multiplicity of
  calls can be read off the log.

  JavaScript runs the component on one thread: a method body, and the continuation of an
  \<open>await\<close>, run to completion before the next event is delivered. An execution is
  therefore the mount followed by a list of events, each handled by \<open>step\<close>.
  The collaborators outside the file are taken to return normally.
\<close>

subsection \<open>Data\<close>

datatype promise = Pending | Fulfilled | Rejected

text \<open>The object destructured as \<open>{data, text, badge, completed}\<close>; \<open>data\<close> is opaque.\<close>

record 'd notification =
  n_data :: 'd
  n_text :: string
  n_badge :: int
  n_completed :: bool

record theme =
  sidebarHeaderBg :: string
  sidebarHeaderTextColor :: string
  centerChannelBg :: string

datatype method_name =
    M_componentDidMount | M_componentWillUnmount | M_launchWhenReady | M_waitForHydration
  | M_handleLaunchLogin | M_handleLaunchChannel | M_listenForHydration
  | M_handleHydrationComplete | M_autoUpdateTimezone | M_configurePushNotifications
  | M_setDeviceToken | M_setStartupThemes | M_handleNotification | M_launchForAndroid
  | M_launchForiOS | M_loadSystemEmojis

text \<open>The two event names of \<open>ViewTypes\<close> the component listens to.\<close>

datatype view_type = LAUNCH_LOGIN | LAUNCH_CHANNEL

datatype 'd call =
    Enter method_name
  | Client4_setUserAgent
  | App_loadAppCredentials
  | Store_subscribe
  | Store_unsubscribe
  | Promise_resolve
  | EventEmitter_on view_type
  | EventEmitter_off view_type
  | Props_initializeModules
  | Action_autoUpdateTimezone string
  | Action_setDeviceToken string
  | App_setStartupThemes string string string
  | ConfigureNotifications
  | Instance_unsubscribeFromStore
  | OnPushNotificationReply 'd string int bool
  | PushNotifications_resetNotification
  | SetSystemEmojis
  | App_launchApp
  | App_setShouldRelaunchWhenActive bool

text \<open>Where the async function \<open>launchWhenReady\<close> stands.\<close>

datatype progress = NotCalled | AwaitingAll | Returned | Threw

datatype screen = SelectServerScreen | ChannelScreen | LoadingView

record 'd world =
  launchLogin :: bool
  launchChannel :: bool
  unsubscribeFromStore :: "unit option"
  theme :: theme
  enableTimezone :: bool
  deviceTimezone :: string
  deviceToken :: "string option"
  toolbarBackground :: "string option"
  replyNotificationData :: "'d notification option"
  isNotificationsConfigured :: bool
  hydrationComplete :: bool
  deviceNotification :: "'d notification option"
  platformOS :: string
  currentState :: string
  credentials :: promise
  hydration :: promise
  subscribed :: bool
  progress :: progress
  listeners :: bool
  replyPromise :: "promise option"
  trace :: "'d call list"

text \<open>
  \<open>launchLogin\<close>, \<open>launchChannel\<close>: \<open>this.state\<close>. \<open>unsubscribeFromStore\<close>: the instance
  field, \<open>None\<close> for null. \<open>theme\<close>, \<open>enableTimezone\<close>, \<open>deviceTimezone\<close>: props.
  \<open>deviceToken\<close>, \<open>toolbarBackground\<close>, \<open>replyNotificationData\<close>,
  \<open>isNotificationsConfigured\<close>: fields of \<open>app\<close>. \<open>hydrationComplete\<close>:
  \<open>store.getState().views.root.hydrationComplete\<close>. \<open>deviceNotification\<close>: the record
  held by \<open>PushNotifications\<close>. \<open>platformOS\<close>: \<open>Platform.OS\<close>. \<open>currentState\<close>:
  \<open>AppState.currentState\<close>. \<open>credentials\<close>: the promise of
  \<open>app.loadAppCredentials()\<close>. \<open>hydration\<close>: the promise of \<open>waitForHydration()\<close>.
  \<open>subscribed\<close>: the listener of \<open>waitForHydration\<close> is registered in the store.
  \<open>listeners\<close>: the two handlers are registered on the event emitter.
  \<open>replyPromise\<close>: the promise returned by the reply dispatcher, once it was called.
\<close>

definition log :: "'d call \<Rightarrow> 'd world \<Rightarrow> 'd world" where
  "log c w = w\<lparr>trace := trace w @ [c]\<rparr>"

subsection \<open>Collaborators outside the file\<close>

text \<open>
  Modelled from the spec: \<open>PushNotifications.getNotification\<close> and
  \<open>PushNotifications.resetNotification\<close> of app/push_notifications are not in the file;
  the first returns the queued cold-start notification or null, the second clears it.
\<close>

definition getNotification :: "'d world \<Rightarrow> 'd notification option" where
  "getNotification w = deviceNotification w"

definition resetNotification :: "'d world \<Rightarrow> 'd world" where
  "resetNotification w = (log PushNotifications_resetNotification w)\<lparr>deviceNotification := None\<rparr>"

text \<open>
  Modelled from the spec: \<open>app.setStartupThemes\<close> of app/mattermost is not in the file; it
  persists the header background, text and center colors into the app state. Only the
  toolbar background is read again by the methods below.
\<close>

definition app_setStartupThemes :: "string \<Rightarrow> string \<Rightarrow> string \<Rightarrow> 'd world \<Rightarrow> 'd world" where
  "app_setStartupThemes bg txt center w =
     (log (App_setStartupThemes bg txt center) w)\<lparr>toolbarBackground := Some bg\<rparr>"

text \<open>
  Modelled from the spec: the reply dispatcher \<open>onPushNotificationReply\<close> of
  app/utils/push_notifications is not in the file; it is an asynchronous action, so the call
  returns a promise that is still pending and settles later (event \<open>ReplySettled\<close>
  below).
\<close>

definition onPushNotificationReply :: "'d \<Rightarrow> string \<Rightarrow> int \<Rightarrow> bool \<Rightarrow> 'd world \<Rightarrow> 'd world" where
  "onPushNotificationReply d t b c w =
     (log (OnPushNotificationReply d t b c) w)\<lparr>replyPromise := Some Pending\<rparr>"

subsection \<open>The methods of the class\<close>

text \<open>
  The constructor sets \<open>this.state\<close> and \<open>this.unsubscribeFromStore\<close>; a fresh instance
  has started nothing, so its promises, its subscriptions and the log start empty. The
  other fields are those of the environment it is created in.
\<close>

definition constructor :: "'d world \<Rightarrow> 'd world" where
  "constructor env =
     env\<lparr>launchLogin := False, launchChannel := False, unsubscribeFromStore := None,
         credentials := Pending, hydration := Pending, subscribed := False,
         progress := NotCalled, listeners := False, replyPromise := None, trace := []\<rparr>"

definition waitForHydration :: "'d world \<Rightarrow> 'd world" where
  "waitForHydration w0 =
     (let w = log (Enter M_waitForHydration) w0 in
      if hydrationComplete w then (log Promise_resolve w)\<lparr>hydration := Fulfilled\<rparr>
      else (log Store_subscribe w)\<lparr>subscribed := True, hydration := Pending\<rparr>)"

text \<open>The callback handed to \<open>store.subscribe\<close> in \<open>waitForHydration\<close>.\<close>

definition store_listener :: "'d world \<Rightarrow> 'd world" where
  "store_listener w =
     (if \<not> hydrationComplete w then w
      else (log Promise_resolve ((log Store_unsubscribe w)\<lparr>subscribed := False\<rparr>))
             \<lparr>hydration := Fulfilled\<rparr>)"

definition handleLaunchLogin :: "bool \<Rightarrow> 'd world \<Rightarrow> 'd world" where
  "handleLaunchLogin initializeModules w0 =
     (let w = (log (Enter M_handleLaunchLogin) w0)\<lparr>launchLogin := True\<rparr> in
      if initializeModules then log Props_initializeModules w else w)"

definition handleLaunchChannel :: "bool \<Rightarrow> 'd world \<Rightarrow> 'd world" where
  "handleLaunchChannel initializeModules w0 =
     (let w = (log (Enter M_handleLaunchChannel) w0)\<lparr>launchChannel := True\<rparr> in
      if initializeModules then log Props_initializeModules w else w)"

definition autoUpdateTimezone :: "'d world \<Rightarrow> 'd world" where
  "autoUpdateTimezone w0 =
     (let w = log (Enter M_autoUpdateTimezone) w0 in
      if enableTimezone w then log (Action_autoUpdateTimezone (deviceTimezone w)) w else w)"

definition configurePushNotifications :: "'d world \<Rightarrow> 'd world" where
  "configurePushNotifications w0 =
     log ConfigureNotifications (log (Enter M_configurePushNotifications) w0)"

text \<open>\<open>if (app.deviceToken)\<close>: null and the empty string are falsy.\<close>

definition setDeviceToken :: "'d world \<Rightarrow> 'd world" where
  "setDeviceToken w0 =
     (let w = log (Enter M_setDeviceToken) w0 in
      case deviceToken w of
        None \<Rightarrow> w
      | Some tok \<Rightarrow> if tok \<noteq> [] then log (Action_setDeviceToken tok) w else w)"

definition setStartupThemes :: "'d world \<Rightarrow> 'd world" where
  "setStartupThemes w0 =
     (let w = log (Enter M_setStartupThemes) w0 in
      if toolbarBackground w = Some (sidebarHeaderBg (theme w)) then w
      else app_setStartupThemes (sidebarHeaderBg (theme w))
             (sidebarHeaderTextColor (theme w)) (centerChannelBg (theme w)) w)"

text \<open>\<open>notification || app.replyNotificationData\<close>\<close>

definition notificationData :: "'d world \<Rightarrow> 'd notification option" where
  "notificationData w =
     (case getNotification w of Some n \<Rightarrow> Some n | None \<Rightarrow> replyNotificationData w)"

text \<open>
  The function is declared async and holds no \<open>await\<close>: its whole body runs within the
  call, and the promise it returns is dropped by its only caller.
\<close>

definition handleNotification :: "'d world \<Rightarrow> 'd world" where
  "handleNotification w0 =
     (let w = log (Enter M_handleNotification) w0 in
      case notificationData w of
        None \<Rightarrow> w
      | Some n \<Rightarrow>
          resetNotification
            (if n_completed n
             then onPushNotificationReply (n_data n) (n_text n) (n_badge n) (n_completed n) w
             else w))"

definition loadSystemEmojis :: "'d world \<Rightarrow> 'd world" where
  "loadSystemEmojis w0 = log SetSystemEmojis (log (Enter M_loadSystemEmojis) w0)"

definition handleHydrationComplete :: "'d world \<Rightarrow> 'd world" where
  "handleHydrationComplete w0 =
     (let w = log (Enter M_handleHydrationComplete) w0;
          w1 = (case unsubscribeFromStore w of
                  None \<Rightarrow> w
                | Some u \<Rightarrow> (log Instance_unsubscribeFromStore w)\<lparr>unsubscribeFromStore := None\<rparr>)
      in loadSystemEmojis (handleNotification (setStartupThemes (setDeviceToken
           (autoUpdateTimezone w1)))))"

definition listenForHydration :: "'d world \<Rightarrow> 'd world" where
  "listenForHydration w0 =
     (let w = log (Enter M_listenForHydration) w0;
          hc = hydrationComplete w;
          w1 = (if \<not> isNotificationsConfigured w then configurePushNotifications w else w)
      in if hc then handleHydrationComplete w1 else w1)"

definition launchForAndroid :: "'d world \<Rightarrow> 'd world" where
  "launchForAndroid w0 = log App_launchApp (log (Enter M_launchForAndroid) w0)"

definition launchForiOS :: "'d world \<Rightarrow> 'd world" where
  "launchForiOS w0 =
     (let w = log (Enter M_launchForiOS) w0;
          appNotActive = (currentState w \<noteq> ''active'')
      in if appNotActive then log (App_setShouldRelaunchWhenActive True) w
         else log App_launchApp w)"

text \<open>\<open>launchWhenReady\<close> up to its \<open>await\<close>: both operations are started.\<close>

definition launchWhenReady :: "'d world \<Rightarrow> 'd world" where
  "launchWhenReady w0 =
     (let w = log (Enter M_launchWhenReady) w0;
          w1 = (log App_loadAppCredentials w)\<lparr>credentials := Pending\<rparr>;
          w2 = waitForHydration w1
      in w2\<lparr>progress := AwaitingAll\<rparr>)"

text \<open>\<open>launchWhenReady\<close> after its \<open>await\<close>.\<close>

definition launchWhenReady_resume :: "'d world \<Rightarrow> 'd world" where
  "launchWhenReady_resume w0 =
     (let w = handleHydrationComplete w0;
          w1 = (if platformOS w = ''android'' then launchForAndroid w else launchForiOS w)
      in w1\<lparr>progress := Returned\<rparr>)"

text \<open>
  \<open>Promise.all\<close> of two promises: rejected as soon as one is rejected, fulfilled once
  both are fulfilled.
\<close>

definition promise_all :: "promise \<Rightarrow> promise \<Rightarrow> promise" where
  "promise_all p q =
     (if p = Rejected \<or> q = Rejected then Rejected
      else if p = Fulfilled \<and> q = Fulfilled then Fulfilled
      else Pending)"

text \<open>
  The \<open>await\<close>: the function resumes when the awaited promise is fulfilled, and throws
  (nothing in the file catches it) when it is rejected.
\<close>

definition await_all :: "'d world \<Rightarrow> 'd world" where
  "await_all w =
     (if progress w = AwaitingAll then
        (case promise_all (credentials w) (hydration w) of
           Fulfilled \<Rightarrow> launchWhenReady_resume w
         | Rejected \<Rightarrow> w\<lparr>progress := Threw\<rparr>
         | Pending \<Rightarrow> w)
      else w)"

definition componentDidMount :: "'d world \<Rightarrow> 'd world" where
  "componentDidMount w0 =
     (let w = log Client4_setUserAgent (log (Enter M_componentDidMount) w0);
          w1 = launchWhenReady w;
          w2 = log (EventEmitter_on LAUNCH_CHANNEL) (log (EventEmitter_on LAUNCH_LOGIN) w1)
      in w2\<lparr>listeners := True\<rparr>)"

definition componentWillUnmount :: "'d world \<Rightarrow> 'd world" where
  "componentWillUnmount w0 =
     (let w = log (Enter M_componentWillUnmount) w0;
          w1 = log (EventEmitter_off LAUNCH_CHANNEL) (log (EventEmitter_off LAUNCH_LOGIN) w)
      in w1\<lparr>listeners := False\<rparr>)"

text \<open>Which screen \<open>render\<close> returns.\<close>

definition render :: "'d world \<Rightarrow> screen" where
  "render w =
     (if launchLogin w then SelectServerScreen
      else if launchChannel w then ChannelScreen
      else LoadingView)"

subsection \<open>Executions\<close>

datatype event =
    CredentialsLoaded
  | CredentialsFailed
  | StoreChanged bool
  | Emit view_type bool
  | AppStateChanged string
  | Unmount
  | ReplySettled bool

text \<open>
  Modelled from the spec: the store, the credential store and the event emitter are not in
  the file. The store calls its subscribers on every state change, until they unsubscribe;
  \<open>app.loadAppCredentials()\<close> returns a promise that settles later; the emitter calls the
  handlers registered with \<open>on\<close> until they are removed with \<open>off\<close>.

  \<open>CredentialsLoaded\<close>, \<open>CredentialsFailed\<close>: the promise of \<open>app.loadAppCredentials()\<close>
  settles. \<open>StoreChanged hc\<close>: the store's state changes, \<open>hydrationComplete\<close> now being
  \<open>hc\<close>, and the store notifies its subscribers. \<open>Emit name flag\<close>: the event emitter
  delivers \<open>name\<close> with the initialize-modules flag. \<open>ReplySettled ok\<close>: the promise of the
  reply dispatcher is fulfilled (\<open>ok\<close>) or rejected.
\<close>

fun step :: "'d world \<Rightarrow> event \<Rightarrow> 'd world" where
  "step w CredentialsLoaded =
     (if credentials w = Pending then await_all (w\<lparr>credentials := Fulfilled\<rparr>) else w)"
| "step w CredentialsFailed =
     (if credentials w = Pending then await_all (w\<lparr>credentials := Rejected\<rparr>) else w)"
| "step w (StoreChanged hc) =
     (let w1 = w\<lparr>hydrationComplete := hc\<rparr> in
      if subscribed w1 then await_all (store_listener w1) else w1)"
| "step w (Emit LAUNCH_LOGIN flag) = (if listeners w then handleLaunchLogin flag w else w)"
| "step w (Emit LAUNCH_CHANNEL flag) = (if listeners w then handleLaunchChannel flag w else w)"
| "step w (AppStateChanged s) = w\<lparr>currentState := s\<rparr>"
| "step w Unmount = (if listeners w then componentWillUnmount w else w)"
| "step w (ReplySettled ok) =
     (if replyPromise w = Some Pending
      then w\<lparr>replyPromise := Some (if ok then Fulfilled else Rejected)\<rparr>
      else w)"

definition run :: "'d world \<Rightarrow> event list \<Rightarrow> 'd world" where
  "run w evs = foldl step w evs"

text \<open>The component is constructed and mounted in the environment \<open>env\<close>.\<close>

definition boot :: "'d world \<Rightarrow> 'd world" where
  "boot env = componentDidMount (constructor env)"

text \<open>
  A mount later in the same process. React builds a fresh instance and mounts it; the
  module-level objects, the promise of the reply dispatcher and the log of the process carry
  on. The world holds the promises and the subscription of one instance, so this is the mount
  that follows an instance which is no longer waiting; the first mount of a process is the
  case of an empty log.
\<close>

definition mount_again :: "'d world \<Rightarrow> 'd world" where
  "mount_again w =
     componentDidMount ((constructor w)\<lparr>replyPromise := replyPromise w, trace := trace w\<rparr>)"

subsection \<open>Reading the log\<close>

text \<open>The post-hydration sequence: \<open>handleHydrationComplete\<close> and its five steps.\<close>

definition post_hydration_methods :: "method_name list" where
  "post_hydration_methods =
     [M_handleHydrationComplete, M_autoUpdateTimezone, M_setDeviceToken,
      M_setStartupThemes, M_handleNotification, M_loadSystemEmojis]"

fun post_hydration_entry :: "'d call \<Rightarrow> bool" where
  "post_hydration_entry (Enter m) = (m \<in> set post_hydration_methods)"
| "post_hydration_entry c = False"

definition post_hydration_log :: "'d world \<Rightarrow> 'd call list" where
  "post_hydration_log w = filter post_hydration_entry (trace w)"

text \<open>What \<open>waitForHydration\<close> and its listener do to the store and to their promise.\<close>

fun waiter_call :: "'d call \<Rightarrow> bool" where
  "waiter_call Store_subscribe = True"
| "waiter_call Store_unsubscribe = True"
| "waiter_call Promise_resolve = True"
| "waiter_call c = False"

definition waiter_log :: "'d world \<Rightarrow> 'd call list" where
  "waiter_log w = filter waiter_call (trace w)"

text \<open>The two effects of the launch decision.\<close>

fun launch_call :: "'d call \<Rightarrow> bool" where
  "launch_call App_launchApp = True"
| "launch_call (App_setShouldRelaunchWhenActive b) = True"
| "launch_call c = False"

definition launch_log :: "'d world \<Rightarrow> 'd call list" where
  "launch_log w = filter launch_call (trace w)"

text \<open>
  The calls that only \<open>listenForHydration\<close>, \<open>configurePushNotifications\<close> and the guarded
  body at the head of \<open>handleHydrationComplete\<close> make.
\<close>

fun dead_call :: "'d call \<Rightarrow> bool" where
  "dead_call (Enter m) = (m = M_listenForHydration \<or> m = M_configurePushNotifications)"
| "dead_call ConfigureNotifications = True"
| "dead_call Instance_unsubscribeFromStore = True"
| "dead_call c = False"

definition dead_log :: "'d world \<Rightarrow> 'd call list" where
  "dead_log w = filter dead_call (trace w)"

subsection \<open>Proof devices\<close>

text \<open>The world without the fields that the post-hydration sequence may write.\<close>

definition outside_steps :: "'d world \<Rightarrow> 'd world" where
  "outside_steps w =
     w\<lparr>trace := [], toolbarBackground := None, deviceNotification := None,
       replyPromise := None, unsubscribeFromStore := None\<rparr>"

text \<open>
  What holds of every world the mounted component can reach: the progress of
  \<open>launchWhenReady\<close> is determined by the two promises it awaits, the sequence is in the
  log exactly when it has returned, the store subscription lives exactly as long as the
  hydration promise is pending, and the instance field stays null.
\<close>

definition consistent :: "'d world \<Rightarrow> bool" where
  "consistent w \<longleftrightarrow>
     progress w = (case promise_all (credentials w) (hydration w) of
                     Pending \<Rightarrow> AwaitingAll | Fulfilled \<Rightarrow> Returned | Rejected \<Rightarrow> Threw) \<and>
     post_hydration_log w =
       (if progress w = Returned then map Enter post_hydration_methods else []) \<and>
     hydration w \<noteq> Rejected \<and>
     subscribed w = (hydration w = Pending) \<and>
     (waiter_log w = [Store_subscribe] \<and> subscribed w \<or>
      waiter_log w = [Promise_resolve] \<and> \<not> subscribed w \<or>
      waiter_log w = [Store_subscribe, Store_unsubscribe, Promise_resolve] \<and> \<not> subscribed w) \<and>
     unsubscribeFromStore w = None \<and>
     dead_log w = []"

text \<open>
  The same for an instance mounted when the log of the process already held \<open>base\<close> of
  the post-hydration sequence.
\<close>

definition sequenced :: "'d call list \<Rightarrow> 'd world \<Rightarrow> bool" where
  "sequenced base w \<longleftrightarrow>
     progress w = (case promise_all (credentials w) (hydration w) of
                     Pending \<Rightarrow> AwaitingAll | Fulfilled \<Rightarrow> Returned | Rejected \<Rightarrow> Threw) \<and>
     post_hydration_log w =
       base @ (if progress w = Returned then map Enter post_hydration_methods else []) \<and>
     hydration w \<noteq> Rejected"

subsection \<open>Sample environments\<close>

definition sample_theme :: theme where
  "sample_theme =
     \<lparr>sidebarHeaderBg = ''#1153ab'', sidebarHeaderTextColor = ''#ffffff'',
      centerChannelBg = ''#fafafa''\<rparr>"

text \<open>A cold start on iOS in the foreground: store not hydrated, nothing queued.\<close>

definition sample_env :: "nat world" where
  "sample_env =
     \<lparr>launchLogin = False, launchChannel = False, unsubscribeFromStore = None,
      theme = sample_theme, enableTimezone = True, deviceTimezone = ''Europe/Helsinki'',
      deviceToken = Some ''apple:abc'', toolbarBackground = None,
      replyNotificationData = None, isNotificationsConfigured = False,
      hydrationComplete = False, deviceNotification = None,
      platformOS = ''ios'', currentState = ''active'',
      credentials = Pending, hydration = Pending, subscribed = False,
      progress = NotCalled, listeners = False, replyPromise = None, trace = []\<rparr>"

definition sample_reply :: "nat notification" where
  "sample_reply = \<lparr>n_data = 7, n_text = ''hi'', n_badge = 3, n_completed = True\<rparr>"

definition sample_incomplete :: "nat notification" where
  "sample_incomplete = \<lparr>n_data = 7, n_text = ''hi'', n_badge = 3, n_completed = False\<rparr>"

section \<open>Lemmas about the methods\<close>

lemma log_eq: "log c w = trace_update (\<lambda>t. t @ [c]) w"
  by (simp add: log_def)

lemma log_fields [simp]:
  "launchLogin (log c w) = launchLogin w"
  "launchChannel (log c w) = launchChannel w"
  "unsubscribeFromStore (log c w) = unsubscribeFromStore w"
  "theme (log c w) = theme w"
  "enableTimezone (log c w) = enableTimezone w"
  "deviceTimezone (log c w) = deviceTimezone w"
  "deviceToken (log c w) = deviceToken w"
  "toolbarBackground (log c w) = toolbarBackground w"
  "replyNotificationData (log c w) = replyNotificationData w"
  "isNotificationsConfigured (log c w) = isNotificationsConfigured w"
  "hydrationComplete (log c w) = hydrationComplete w"
  "deviceNotification (log c w) = deviceNotification w"
  "platformOS (log c w) = platformOS w"
  "currentState (log c w) = currentState w"
  "credentials (log c w) = credentials w"
  "hydration (log c w) = hydration w"
  "subscribed (log c w) = subscribed w"
  "progress (log c w) = progress w"
  "listeners (log c w) = listeners w"
  "replyPromise (log c w) = replyPromise w"
  "trace (log c w) = trace w @ [c]"
  by (simp_all add: log_def)

lemma outside_log [simp]: "outside_steps (log c w) = outside_steps w"
  by (simp add: outside_steps_def log_eq)

lemma outside_autoUpdateTimezone [simp]: "outside_steps (autoUpdateTimezone w) = outside_steps w"
  by (simp add: autoUpdateTimezone_def Let_def)

lemma outside_setDeviceToken [simp]: "outside_steps (setDeviceToken w) = outside_steps w"
  by (simp add: setDeviceToken_def Let_def split: option.splits)

lemma outside_setStartupThemes [simp]: "outside_steps (setStartupThemes w) = outside_steps w"
  by (simp add: setStartupThemes_def app_setStartupThemes_def Let_def outside_steps_def log_eq)

lemma outside_handleNotification [simp]: "outside_steps (handleNotification w) = outside_steps w"
  by (simp add: handleNotification_def resetNotification_def onPushNotificationReply_def
      Let_def outside_steps_def log_eq split: option.splits)

lemma outside_loadSystemEmojis [simp]: "outside_steps (loadSystemEmojis w) = outside_steps w"
  by (simp add: loadSystemEmojis_def)

lemma outside_handleHydrationComplete [simp]:
  "outside_steps (handleHydrationComplete w) = outside_steps w"
proof (cases "unsubscribeFromStore w")
  case None
  then show ?thesis by (simp add: handleHydrationComplete_def Let_def)
next
  case (Some u)
  have "outside_steps ((log Instance_unsubscribeFromStore (log (Enter M_handleHydrationComplete) w))
          \<lparr>unsubscribeFromStore := None\<rparr>) = outside_steps w"
    by (simp add: outside_steps_def log_eq)
  with Some show ?thesis by (simp add: handleHydrationComplete_def Let_def)
qed

lemma outside_launchForAndroid [simp]: "outside_steps (launchForAndroid w) = outside_steps w"
  by (simp add: launchForAndroid_def)

lemma outside_launchForiOS [simp]: "outside_steps (launchForiOS w) = outside_steps w"
  by (simp add: launchForiOS_def Let_def)

lemma outside_resume:
  "outside_steps (launchWhenReady_resume w) = outside_steps (w\<lparr>progress := Returned\<rparr>)"
proof -
  have "\<And>v::'a world. outside_steps (v\<lparr>progress := Returned\<rparr>) = (outside_steps v)\<lparr>progress := Returned\<rparr>"
    by (simp add: outside_steps_def)
  then show ?thesis by (simp add: launchWhenReady_resume_def Let_def)
qed

lemma outside_fields:
  "launchLogin w = launchLogin (outside_steps w)"
  "launchChannel w = launchChannel (outside_steps w)"
  "credentials w = credentials (outside_steps w)"
  "hydration w = hydration (outside_steps w)"
  "subscribed w = subscribed (outside_steps w)"
  "progress w = progress (outside_steps w)"
  "listeners w = listeners (outside_steps w)"
  "platformOS w = platformOS (outside_steps w)"
  "currentState w = currentState (outside_steps w)"
  "hydrationComplete w = hydrationComplete (outside_steps w)"
  "replyNotificationData w = replyNotificationData (outside_steps w)"
  by (simp_all add: outside_steps_def)

lemma resume_fields:
  "launchLogin (launchWhenReady_resume w) = launchLogin w"
  "launchChannel (launchWhenReady_resume w) = launchChannel w"
  "credentials (launchWhenReady_resume w) = credentials w"
  "hydration (launchWhenReady_resume w) = hydration w"
  "subscribed (launchWhenReady_resume w) = subscribed w"
  "progress (launchWhenReady_resume w) = Returned"
  "listeners (launchWhenReady_resume w) = listeners w"
  "platformOS (launchWhenReady_resume w) = platformOS w"
  "currentState (launchWhenReady_resume w) = currentState w"
  "hydrationComplete (launchWhenReady_resume w) = hydrationComplete w"
  "replyNotificationData (launchWhenReady_resume w) = replyNotificationData w"
  by (subst outside_fields, subst outside_resume, simp add: outside_steps_def)+

lemma hhc_fields:
  "platformOS (handleHydrationComplete w) = platformOS w"
  "currentState (handleHydrationComplete w) = currentState w"
  by (subst outside_fields, subst outside_handleHydrationComplete, simp add: outside_steps_def)+

lemmas log_defs = post_hydration_log_def waiter_log_def launch_log_def dead_log_def

lemma autoUpdateTimezone_logs [simp]:
  "filter post_hydration_entry (trace (autoUpdateTimezone w)) =
     filter post_hydration_entry (trace w) @ [Enter M_autoUpdateTimezone]"
  "filter waiter_call (trace (autoUpdateTimezone w)) = filter waiter_call (trace w)"
  "filter launch_call (trace (autoUpdateTimezone w)) = filter launch_call (trace w)"
  "filter dead_call (trace (autoUpdateTimezone w)) = filter dead_call (trace w)"
  by (simp_all add: autoUpdateTimezone_def Let_def post_hydration_methods_def)

lemma setDeviceToken_logs [simp]:
  "filter post_hydration_entry (trace (setDeviceToken w)) =
     filter post_hydration_entry (trace w) @ [Enter M_setDeviceToken]"
  "filter waiter_call (trace (setDeviceToken w)) = filter waiter_call (trace w)"
  "filter launch_call (trace (setDeviceToken w)) = filter launch_call (trace w)"
  "filter dead_call (trace (setDeviceToken w)) = filter dead_call (trace w)"
  by (simp_all add: setDeviceToken_def Let_def post_hydration_methods_def split: option.splits)

lemma setStartupThemes_logs [simp]:
  "filter post_hydration_entry (trace (setStartupThemes w)) =
     filter post_hydration_entry (trace w) @ [Enter M_setStartupThemes]"
  "filter waiter_call (trace (setStartupThemes w)) = filter waiter_call (trace w)"
  "filter launch_call (trace (setStartupThemes w)) = filter launch_call (trace w)"
  "filter dead_call (trace (setStartupThemes w)) = filter dead_call (trace w)"
  by (simp_all add: setStartupThemes_def app_setStartupThemes_def Let_def
      post_hydration_methods_def)

lemma handleNotification_logs [simp]:
  "filter post_hydration_entry (trace (handleNotification w)) =
     filter post_hydration_entry (trace w) @ [Enter M_handleNotification]"
  "filter waiter_call (trace (handleNotification w)) = filter waiter_call (trace w)"
  "filter launch_call (trace (handleNotification w)) = filter launch_call (trace w)"
  "filter dead_call (trace (handleNotification w)) = filter dead_call (trace w)"
  by (simp_all add: handleNotification_def resetNotification_def onPushNotificationReply_def
      Let_def post_hydration_methods_def split: option.splits)

lemma loadSystemEmojis_logs [simp]:
  "filter post_hydration_entry (trace (loadSystemEmojis w)) =
     filter post_hydration_entry (trace w) @ [Enter M_loadSystemEmojis]"
  "filter waiter_call (trace (loadSystemEmojis w)) = filter waiter_call (trace w)"
  "filter launch_call (trace (loadSystemEmojis w)) = filter launch_call (trace w)"
  "filter dead_call (trace (loadSystemEmojis w)) = filter dead_call (trace w)"
  by (simp_all add: loadSystemEmojis_def post_hydration_methods_def)

lemma handleHydrationComplete_logs:
  "filter post_hydration_entry (trace (handleHydrationComplete w)) =
     filter post_hydration_entry (trace w) @ map Enter post_hydration_methods"
  "filter waiter_call (trace (handleHydrationComplete w)) = filter waiter_call (trace w)"
  "filter launch_call (trace (handleHydrationComplete w)) = filter launch_call (trace w)"
  "unsubscribeFromStore w = None \<Longrightarrow>
     filter dead_call (trace (handleHydrationComplete w)) = filter dead_call (trace w)"
  by (simp_all add: handleHydrationComplete_def Let_def post_hydration_methods_def
      split: option.splits)

lemma unsubscribeFromStore_steps [simp]:
  "unsubscribeFromStore (autoUpdateTimezone w) = unsubscribeFromStore w"
  "unsubscribeFromStore (setDeviceToken w) = unsubscribeFromStore w"
  "unsubscribeFromStore (setStartupThemes w) = unsubscribeFromStore w"
  "unsubscribeFromStore (handleNotification w) = unsubscribeFromStore w"
  "unsubscribeFromStore (loadSystemEmojis w) = unsubscribeFromStore w"
  "unsubscribeFromStore (launchForAndroid w) = unsubscribeFromStore w"
  "unsubscribeFromStore (launchForiOS w) = unsubscribeFromStore w"
  by (simp_all add: autoUpdateTimezone_def setDeviceToken_def setStartupThemes_def
      app_setStartupThemes_def handleNotification_def resetNotification_def
      onPushNotificationReply_def loadSystemEmojis_def launchForAndroid_def launchForiOS_def
      Let_def split: option.splits)

lemma unsubscribeFromStore_handleHydrationComplete [simp]:
  "unsubscribeFromStore (handleHydrationComplete w) = None"
  by (simp add: handleHydrationComplete_def Let_def split: option.splits)

lemma resume_logs:
  "filter post_hydration_entry (trace (launchWhenReady_resume w)) =
     filter post_hydration_entry (trace w) @ map Enter post_hydration_methods"
  "filter waiter_call (trace (launchWhenReady_resume w)) = filter waiter_call (trace w)"
  "unsubscribeFromStore w = None \<Longrightarrow>
     filter dead_call (trace (launchWhenReady_resume w)) = filter dead_call (trace w)"
  "unsubscribeFromStore (launchWhenReady_resume w) = None"
  by (simp_all add: launchWhenReady_resume_def Let_def handleHydrationComplete_logs
      launchForAndroid_def launchForiOS_def post_hydration_methods_def)

lemma resume_launch_log:
  "filter launch_call (trace (launchWhenReady_resume w)) =
     filter launch_call (trace w) @
       (if platformOS w = ''android'' \<or> currentState w = ''active'' then [App_launchApp]
        else [App_setShouldRelaunchWhenActive True])"
  by (simp add: launchWhenReady_resume_def Let_def handleHydrationComplete_logs hhc_fields
      launchForAndroid_def launchForiOS_def)

lemma await_all_cases:
  "await_all w =
     (if progress w = AwaitingAll \<and> credentials w = Fulfilled \<and> hydration w = Fulfilled
      then launchWhenReady_resume w
      else if progress w = AwaitingAll \<and> (credentials w = Rejected \<or> hydration w = Rejected)
      then w\<lparr>progress := Threw\<rparr>
      else w)"
  by (cases "credentials w"; cases "hydration w") (simp_all add: await_all_def promise_all_def)

lemma boot_fields:
  "launchLogin (boot env) = False"
  "launchChannel (boot env) = False"
  "unsubscribeFromStore (boot env) = None"
  "credentials (boot env) = Pending"
  "hydration (boot env) = (if hydrationComplete env then Fulfilled else Pending)"
  "subscribed (boot env) = (\<not> hydrationComplete env)"
  "progress (boot env) = AwaitingAll"
  "listeners (boot env) = True"
  "trace (boot env) =
     [Enter M_componentDidMount, Client4_setUserAgent, Enter M_launchWhenReady,
      App_loadAppCredentials, Enter M_waitForHydration,
      if hydrationComplete env then Promise_resolve else Store_subscribe,
      EventEmitter_on LAUNCH_LOGIN, EventEmitter_on LAUNCH_CHANNEL]"
  by (simp_all add: boot_def componentDidMount_def constructor_def launchWhenReady_def
      waitForHydration_def Let_def)

lemma consistent_boot: "consistent (boot env)"
  by (simp add: consistent_def log_defs boot_fields promise_all_def post_hydration_methods_def)

lemma consistent_step: "consistent w \<Longrightarrow> consistent (step w e)"
proof (cases e)
  case CredentialsLoaded
  assume "consistent w"
  then show ?thesis unfolding CredentialsLoaded
    by (auto simp: consistent_def log_defs await_all_cases resume_fields resume_logs
        promise_all_def split: promise.splits if_splits)
next
  case CredentialsFailed
  assume "consistent w"
  then show ?thesis unfolding CredentialsFailed
    by (auto simp: consistent_def log_defs await_all_cases resume_fields resume_logs
        promise_all_def split: promise.splits if_splits)
next
  case (StoreChanged hc)
  assume "consistent w"
  then show ?thesis unfolding StoreChanged
    by (auto simp: consistent_def log_defs await_all_cases resume_fields resume_logs
        store_listener_def Let_def
        promise_all_def split: promise.splits if_splits)
next
  case (Emit v b)
  assume "consistent w"
  then show ?thesis unfolding Emit
    by (cases v) (auto simp: consistent_def log_defs handleLaunchLogin_def handleLaunchChannel_def Let_def
        post_hydration_methods_def)
next
  case (AppStateChanged s)
  assume "consistent w"
  then show ?thesis unfolding AppStateChanged
    by (auto simp: consistent_def log_defs)
next
  case Unmount
  assume "consistent w"
  then show ?thesis unfolding Unmount
    by (auto simp: consistent_def log_defs componentWillUnmount_def Let_def post_hydration_methods_def)
next
  case (ReplySettled ok)
  assume "consistent w"
  then show ?thesis unfolding ReplySettled
    by (auto simp: consistent_def log_defs)
qed

subsection \<open>Reachable worlds\<close>

lemma consistent_run: "consistent w \<Longrightarrow> consistent (run w evs)"
  unfolding run_def by (induction evs arbitrary: w) (simp_all add: consistent_step)

lemma run_append: "run w (evs @ later) = run (run w evs) later"
  by (simp add: run_def)

lemma run_Cons: "run w (e # evs) = run (step w e) evs"
  by (simp add: run_def)

lemma run_Nil: "run w [] = w"
  by (simp add: run_def)

lemma consistent_reach: "consistent (run (boot env) evs)"
  by (rule consistent_run) (rule consistent_boot)

lemmas eval_defs = boot_def componentDidMount_def constructor_def launchWhenReady_def
  waitForHydration_def store_listener_def await_all_def promise_all_def
  launchWhenReady_resume_def handleHydrationComplete_def autoUpdateTimezone_def
  setDeviceToken_def setStartupThemes_def app_setStartupThemes_def handleNotification_def
  notificationData_def getNotification_def resetNotification_def onPushNotificationReply_def
  loadSystemEmojis_def launchForAndroid_def launchForiOS_def handleLaunchLogin_def
  handleLaunchChannel_def componentWillUnmount_def run_def Let_def
  sample_env_def sample_theme_def sample_reply_def sample_incomplete_def
  post_hydration_methods_def

subsection \<open>One step of an execution\<close>

lemma await_all_fields:
  "launchLogin (await_all w) = launchLogin w"
  "launchChannel (await_all w) = launchChannel w"
  "credentials (await_all w) = credentials w"
  "hydration (await_all w) = hydration w"
  "subscribed (await_all w) = subscribed w"
  "listeners (await_all w) = listeners w"
  "filter waiter_call (trace (await_all w)) = filter waiter_call (trace w)"
  by (simp_all add: await_all_cases resume_fields resume_logs)

lemma store_listener_fields:
  "launchLogin (store_listener w) = launchLogin w"
  "launchChannel (store_listener w) = launchChannel w"
  "credentials (store_listener w) = credentials w"
  "listeners (store_listener w) = listeners w"
  "hydration (store_listener w) = (if hydrationComplete w then Fulfilled else hydration w)"
  "subscribed (store_listener w) = (subscribed w \<and> \<not> hydrationComplete w)"
  "filter waiter_call (trace (store_listener w)) =
     filter waiter_call (trace w) @
       (if hydrationComplete w then [Store_unsubscribe, Promise_resolve] else [])"
  by (simp_all add: store_listener_def)

lemma handler_fields:
  "launchLogin (handleLaunchLogin b w) = True"
  "launchChannel (handleLaunchLogin b w) = launchChannel w"
  "launchLogin (handleLaunchChannel b w) = launchLogin w"
  "launchChannel (handleLaunchChannel b w) = True"
  "listeners (handleLaunchLogin b w) = listeners w"
  "listeners (handleLaunchChannel b w) = listeners w"
  "credentials (handleLaunchLogin b w) = credentials w"
  "credentials (handleLaunchChannel b w) = credentials w"
  "hydration (handleLaunchLogin b w) = hydration w"
  "hydration (handleLaunchChannel b w) = hydration w"
  "subscribed (handleLaunchLogin b w) = subscribed w"
  "subscribed (handleLaunchChannel b w) = subscribed w"
  "filter waiter_call (trace (handleLaunchLogin b w)) = filter waiter_call (trace w)"
  "filter waiter_call (trace (handleLaunchChannel b w)) = filter waiter_call (trace w)"
  "launchLogin (componentWillUnmount w) = launchLogin w"
  "launchChannel (componentWillUnmount w) = launchChannel w"
  "credentials (componentWillUnmount w) = credentials w"
  "hydration (componentWillUnmount w) = hydration w"
  "subscribed (componentWillUnmount w) = subscribed w"
  "filter waiter_call (trace (componentWillUnmount w)) = filter waiter_call (trace w)"
  by (simp_all add: handleLaunchLogin_def handleLaunchChannel_def componentWillUnmount_def
      Let_def)

lemma step_flags:
  "launchLogin (step w e) = (launchLogin w \<or> listeners w \<and> (\<exists>b. e = Emit LAUNCH_LOGIN b))"
  "launchChannel (step w e) = (launchChannel w \<or> listeners w \<and> (\<exists>b. e = Emit LAUNCH_CHANNEL b))"
  by (cases "(w, e)" rule: step.cases;
      simp add: Let_def await_all_fields store_listener_fields handler_fields)+

lemma step_waiter:
  "waiter_log (step w e) =
     waiter_log w @
       (if subscribed w \<and> e = StoreChanged True then [Store_unsubscribe, Promise_resolve]
        else [])"
  "subscribed (step w e) = (subscribed w \<and> e \<noteq> StoreChanged True)"
  "hydration (step w e) =
     (if subscribed w \<and> e = StoreChanged True then Fulfilled else hydration w)"
  "credentials w = Fulfilled \<Longrightarrow> credentials (step w e) = Fulfilled"
  by (cases "(w, e)" rule: step.cases;
      simp add: Let_def waiter_log_def await_all_fields store_listener_fields handler_fields)+

subsection \<open>Whole executions\<close>

declare step.simps [simp del]

lemmas run_defs = eval_defs step.simps

lemma notificationData_log [simp]: "notificationData (log c w) = notificationData w"
  by (simp add: notificationData_def getNotification_def split: option.splits)

lemma run_flags:
  "launchLogin w \<Longrightarrow> launchLogin (run w evs)"
  "launchChannel w \<Longrightarrow> launchChannel (run w evs)"
  by (induction evs arbitrary: w; simp add: run_Nil run_Cons step_flags)+

lemma run_no_login:
  "\<not> launchLogin w \<Longrightarrow> \<forall>b. Emit LAUNCH_LOGIN b \<notin> set evs \<Longrightarrow> \<not> launchLogin (run w evs)"
proof (induction evs arbitrary: w)
  case Nil
  then show ?case by (simp add: run_Nil)
next
  case (Cons e evs)
  from Cons.prems have "\<not> launchLogin (step w e)"
    by (auto simp: step_flags)
  moreover from Cons.prems have "\<forall>b. Emit LAUNCH_LOGIN b \<notin> set evs"
    by simp
  ultimately show ?case
    using Cons.IH by (simp add: run_Cons)
qed

lemma run_waiter_unsubscribed:
  "\<not> subscribed w \<Longrightarrow>
     waiter_log (run w evs) = waiter_log w \<and> \<not> subscribed (run w evs) \<and>
     hydration (run w evs) = hydration w"
  by (induction evs arbitrary: w) (simp_all add: run_Nil run_Cons step_waiter)

lemma run_waiter_subscribed:
  "subscribed w \<Longrightarrow>
     waiter_log (run w evs) =
       waiter_log w @
         (if StoreChanged True \<in> set evs then [Store_unsubscribe, Promise_resolve] else []) \<and>
     subscribed (run w evs) = (StoreChanged True \<notin> set evs) \<and>
     hydration (run w evs) = (if StoreChanged True \<in> set evs then Fulfilled else hydration w)"
proof (induction evs arbitrary: w)
  case Nil
  then show ?case by (simp add: run_Nil)
next
  case (Cons e evs)
  show ?case
  proof (cases "e = StoreChanged True")
    case True
    with Cons.prems have "\<not> subscribed (step w e)" by (simp add: step_waiter)
    from run_waiter_unsubscribed [OF this, of evs] True Cons.prems
    show ?thesis by (simp add: run_Cons step_waiter)
  next
    case False
    with Cons.prems have "subscribed (step w e)" by (simp add: step_waiter)
    from Cons.IH [OF this] False Cons.prems
    show ?thesis by (auto simp add: run_Cons step_waiter)
  qed
qed

lemma run_credentials: "credentials w = Fulfilled \<Longrightarrow> credentials (run w evs) = Fulfilled"
  by (induction evs arbitrary: w) (simp_all add: run_Nil run_Cons step_waiter)

lemma run_hydration: "hydration w = Fulfilled \<Longrightarrow> hydration (run w evs) = Fulfilled"
  by (induction evs arbitrary: w) (simp_all add: run_Nil run_Cons step_waiter)

subsection \<open>The reply promise\<close>

lemma notificationData_steps [simp]:
  "notificationData (autoUpdateTimezone w) = notificationData w"
  "notificationData (setDeviceToken w) = notificationData w"
  "notificationData (setStartupThemes w) = notificationData w"
  by (simp_all add: autoUpdateTimezone_def setDeviceToken_def setStartupThemes_def
      app_setStartupThemes_def notificationData_def getNotification_def Let_def
      split: option.splits)

lemma replyPromise_steps [simp]:
  "replyPromise (loadSystemEmojis w) = replyPromise w"
  "replyPromise (launchForAndroid w) = replyPromise w"
  "replyPromise (launchForiOS w) = replyPromise w"
  by (simp_all add: loadSystemEmojis_def launchForAndroid_def launchForiOS_def Let_def)

lemma replyPromise_handleNotification:
  "notificationData w = Some n \<Longrightarrow> n_completed n \<Longrightarrow>
   replyPromise (handleNotification w) = Some Pending"
  by (simp add: handleNotification_def resetNotification_def onPushNotificationReply_def
      Let_def)

lemma replyPromise_handleHydrationComplete:
  "notificationData w = Some n \<Longrightarrow> n_completed n \<Longrightarrow>
   replyPromise (handleHydrationComplete w) = Some Pending"
proof -
  assume n: "notificationData w = Some n" "n_completed n"
  have "\<And>v::'a world. notificationData (v\<lparr>unsubscribeFromStore := None\<rparr>) = notificationData v"
    by (simp add: notificationData_def getNotification_def split: option.splits)
  with n show ?thesis
    by (simp add: handleHydrationComplete_def Let_def replyPromise_handleNotification
        split: option.splits)
qed

subsection \<open>A further mount\<close>

lemma mount_again_fields:
  "credentials (mount_again w) = Pending"
  "hydration (mount_again w) = (if hydrationComplete w then Fulfilled else Pending)"
  "progress (mount_again w) = AwaitingAll"
  "post_hydration_log (mount_again w) = post_hydration_log w"
  by (simp_all add: mount_again_def componentDidMount_def constructor_def launchWhenReady_def
      waitForHydration_def Let_def post_hydration_log_def post_hydration_methods_def)

lemma boot_mount_again: "boot env = mount_again (env\<lparr>replyPromise := None, trace := []\<rparr>)"
  by (simp add: boot_def mount_again_def constructor_def)

lemma sequenced_mount_again: "sequenced (post_hydration_log w) (mount_again w)"
  by (simp add: sequenced_def mount_again_fields promise_all_def)

lemma sequenced_step: "sequenced base w \<Longrightarrow> sequenced base (step w e)"
proof (cases e)
  case CredentialsLoaded
  assume "sequenced base w"
  then show ?thesis unfolding CredentialsLoaded
    by (auto simp: sequenced_def post_hydration_log_def await_all_cases resume_fields
        resume_logs promise_all_def step.simps split: promise.splits if_splits)
next
  case CredentialsFailed
  assume "sequenced base w"
  then show ?thesis unfolding CredentialsFailed
    by (auto simp: sequenced_def post_hydration_log_def await_all_cases resume_fields
        resume_logs promise_all_def step.simps split: promise.splits if_splits)
next
  case (StoreChanged hc)
  assume "sequenced base w"
  then show ?thesis unfolding StoreChanged
    by (auto simp: sequenced_def post_hydration_log_def await_all_cases resume_fields
        resume_logs store_listener_def Let_def promise_all_def step.simps
        split: promise.splits if_splits)
next
  case (Emit v b)
  assume "sequenced base w"
  then show ?thesis unfolding Emit
    by (cases v) (auto simp: sequenced_def post_hydration_log_def handleLaunchLogin_def
        handleLaunchChannel_def Let_def post_hydration_methods_def step.simps)
next
  case (AppStateChanged s)
  assume "sequenced base w"
  then show ?thesis unfolding AppStateChanged
    by (auto simp: sequenced_def post_hydration_log_def step.simps)
next
  case Unmount
  assume "sequenced base w"
  then show ?thesis unfolding Unmount
    by (auto simp: sequenced_def post_hydration_log_def componentWillUnmount_def Let_def
        post_hydration_methods_def step.simps)
next
  case (ReplySettled ok)
  assume "sequenced base w"
  then show ?thesis unfolding ReplySettled
    by (auto simp: sequenced_def post_hydration_log_def step.simps)
qed

lemma sequenced_run: "sequenced base w \<Longrightarrow> sequenced base (run w evs)"
  by (induction evs arbitrary: w) (simp_all add: run_Nil run_Cons sequenced_step)

lemma step_credentials_rejected:
  "credentials w = Rejected \<Longrightarrow> credentials (step w e) = Rejected"
  by (cases "(w, e)" rule: step.cases;
      simp add: step.simps Let_def await_all_fields store_listener_fields handler_fields)

lemma run_credentials_rejected:
  "credentials w = Rejected \<Longrightarrow> credentials (run w evs) = Rejected"
  by (induction evs arbitrary: w) (simp_all add: run_Nil run_Cons step_credentials_rejected)

section \<open>The claims\<close>

subsection \<open>C1\<close>

text \<open>
  C1, as amended: the two flags of the router are never reset. Once the login screen is
  rendered, no sequence of later events changes the rendered screen. Once the channel screen
  is rendered, the loading view is never rendered again, and the channel screen stays as
  long as no launch-login event is delivered; \<open>render\<close> tests \<open>launchLogin\<close> first, so
  a later launch-login event replaces the channel screen by the login screen.
\<close>

theorem C1_route_latch:
  "(launchLogin w \<longrightarrow> launchLogin (run w evs)) \<and>
   (launchChannel w \<longrightarrow> launchChannel (run w evs)) \<and>
   (render w = SelectServerScreen \<longrightarrow> render (run w evs) = SelectServerScreen) \<and>
   (render w = ChannelScreen \<longrightarrow> render (run w evs) \<noteq> LoadingView) \<and>
   (render w = ChannelScreen \<and> (\<forall>b. Emit LAUNCH_LOGIN b \<notin> set evs) \<longrightarrow>
      render (run w evs) = ChannelScreen)"
  using run_flags [of w evs] run_no_login [of w evs]
  by (auto simp: render_def split: if_splits)

text \<open>
  Both branches at work: login first, then a launch-channel event; channel first, then
  events other than launch-login.
\<close>

theorem C1_route_latch_witness:
  "render (run (boot sample_env) [Emit LAUNCH_LOGIN True]) = SelectServerScreen \<and>
   render (run (run (boot sample_env) [Emit LAUNCH_LOGIN True])
     [Emit LAUNCH_CHANNEL True, StoreChanged True]) = SelectServerScreen \<and>
   render (run (boot sample_env) [Emit LAUNCH_CHANNEL False]) = ChannelScreen \<and>
   render (run (run (boot sample_env) [Emit LAUNCH_CHANNEL False])
     [StoreChanged True, Emit LAUNCH_CHANNEL True]) = ChannelScreen"
  using C1_route_latch [of "run (boot sample_env) [Emit LAUNCH_LOGIN True]"
      "[Emit LAUNCH_CHANNEL True, StoreChanged True]"]
    C1_route_latch [of "run (boot sample_env) [Emit LAUNCH_CHANNEL False]"
      "[StoreChanged True, Emit LAUNCH_CHANNEL True]"]
  by (simp add: render_def run_defs)

text \<open>
  First-wins fails in one direction: after a launch-channel event the channel screen is
  rendered, and a launch-login event delivered next replaces it by the login screen.
\<close>

theorem C1_counterexample:
  "render (run (boot sample_env) [Emit LAUNCH_CHANNEL False]) = ChannelScreen \<and>
   render (run (boot sample_env) [Emit LAUNCH_CHANNEL False, Emit LAUNCH_LOGIN False]) =
     SelectServerScreen"
  by (simp add: render_def run_defs)

subsection \<open>C2\<close>

text \<open>
  C2: when the record the resolver reads is \<open>{data: D, text: T, badge: B, completed: true}\<close>,
  what the resolver adds to the log is its own entry, one call of the reply dispatcher with
  exactly \<open>(D, T, B, true)\<close>, and one call of the clear operation, in that order; afterwards
  the notification layer holds no record.
\<close>

theorem C2_completed_reply:
  "notificationData w = Some \<lparr>n_data = D, n_text = T, n_badge = B, n_completed = True\<rparr> \<Longrightarrow>
   trace (handleNotification w) =
     trace w @ [Enter M_handleNotification, OnPushNotificationReply D T B True,
                PushNotifications_resetNotification] \<and>
   getNotification (handleNotification w) = None"
  by (simp add: handleNotification_def getNotification_def
      resetNotification_def onPushNotificationReply_def Let_def)

text \<open>A cold start through a completed reply \<open>{data: 7, text: "hi", badge: 3}\<close>.\<close>

theorem C2_completed_reply_witness:
  "notificationData (sample_env\<lparr>deviceNotification := Some sample_reply\<rparr>) =
     Some \<lparr>n_data = 7, n_text = ''hi'', n_badge = 3, n_completed = True\<rparr> \<and>
   trace (handleNotification (sample_env\<lparr>deviceNotification := Some sample_reply\<rparr>)) =
     [Enter M_handleNotification, OnPushNotificationReply 7 ''hi'' 3 True,
      PushNotifications_resetNotification]"
  using C2_completed_reply [of "sample_env\<lparr>deviceNotification := Some sample_reply\<rparr>" 7 "''hi''" 3]
  by (simp add: notificationData_def getNotification_def sample_env_def sample_reply_def)

subsection \<open>C3\<close>

text \<open>
  C3, as amended: when the record the resolver reads has \<open>completed\<close> false, the resolver
  calls no reply dispatcher and calls the clear operation exactly once, after which the
  notification layer holds no record. A later call therefore reads exactly what
  \<open>app.replyNotificationData\<close> held before: nothing, when the record came from the
  notification layer and nothing is cached; the cached record again otherwise, since the
  resolver never clears the cache.
\<close>

theorem C3_incomplete_discarded:
  "notificationData w = Some n \<Longrightarrow> \<not> n_completed n \<Longrightarrow>
   trace (handleNotification w) =
     trace w @ [Enter M_handleNotification, PushNotifications_resetNotification] \<and>
   getNotification (handleNotification w) = None \<and>
   notificationData (handleNotification w) = replyNotificationData w"
  by (simp add: handleNotification_def notificationData_def getNotification_def
      resetNotification_def Let_def split: option.splits)

text \<open>An incomplete record held by the notification layer, nothing cached.\<close>

theorem C3_incomplete_discarded_witness:
  "notificationData (sample_env\<lparr>deviceNotification := Some sample_incomplete\<rparr>) =
     Some sample_incomplete \<and>
   \<not> n_completed sample_incomplete \<and>
   trace (handleNotification (sample_env\<lparr>deviceNotification := Some sample_incomplete\<rparr>)) =
     [Enter M_handleNotification, PushNotifications_resetNotification] \<and>
   notificationData
     (handleNotification (sample_env\<lparr>deviceNotification := Some sample_incomplete\<rparr>)) = None"
  using C3_incomplete_discarded
    [of "sample_env\<lparr>deviceNotification := Some sample_incomplete\<rparr>" sample_incomplete]
  by (simp add: run_defs)

text \<open>
  An incomplete record cached on the app state is not out of reach after the call: the next
  call reads the same record and goes through the clear operation a second time.
\<close>

theorem C3_counterexample:
  "notificationData (sample_env\<lparr>replyNotificationData := Some sample_incomplete\<rparr>) =
     Some sample_incomplete \<and>
   \<not> n_completed sample_incomplete \<and>
   notificationData
     (handleNotification (sample_env\<lparr>replyNotificationData := Some sample_incomplete\<rparr>)) =
     Some sample_incomplete \<and>
   trace (handleNotification
     (handleNotification (sample_env\<lparr>replyNotificationData := Some sample_incomplete\<rparr>))) =
     [Enter M_handleNotification, PushNotifications_resetNotification,
      Enter M_handleNotification, PushNotifications_resetNotification]"
  by (simp add: run_defs)

subsection \<open>C4\<close>

text \<open>
  C4: in every execution, whatever the order in which the credential load and the hydration
  wait complete, the post-hydration sequence has not begun as long as one of the two
  promises is not fulfilled: the log holds no entry of \<open>handleHydrationComplete\<close> or of
  its five steps. One fulfilled prerequisite alone never starts it.
\<close>

theorem C4_both_prerequisites:
  "credentials (run (boot env) evs) \<noteq> Fulfilled \<or> hydration (run (boot env) evs) \<noteq> Fulfilled
   \<Longrightarrow> post_hydration_log (run (boot env) evs) = []"
  using consistent_reach [of env evs]
  by (auto simp: consistent_def promise_all_def split: promise.splits if_splits)

text \<open>Hydration completes while the credentials are still loading.\<close>

theorem C4_both_prerequisites_witness:
  "hydration (run (boot sample_env) [StoreChanged True]) = Fulfilled \<and>
   credentials (run (boot sample_env) [StoreChanged True]) \<noteq> Fulfilled \<and>
   post_hydration_log (run (boot sample_env) [StoreChanged True]) = []"
  using C4_both_prerequisites [of sample_env "[StoreChanged True]"]
  by (simp add: run_defs)

subsection \<open>C5\<close>

text \<open>
  C5, as amended: for every mount of the component, the first of the process or a later
  one, the instance adds the post-hydration sequence to the log of the process either not at
  all or exactly once and whole, in the order \<open>handleHydrationComplete\<close>, timezone
  auto-update, device-token registration, theme snapshot, notification-reply resolution,
  emoji-table load. It has added nothing as long as one of its two prerequisites is not
  fulfilled, and never adds anything once the credential load is rejected. Once both
  prerequisites are fulfilled it has added the sequence exactly once, and that stays so
  whatever events follow, store notifications included.
\<close>

theorem C5_sequence_per_mount:
  "progress w \<noteq> AwaitingAll \<and> \<not> subscribed w \<Longrightarrow>
   (post_hydration_log (run (mount_again w) evs) = post_hydration_log w \<or>
    post_hydration_log (run (mount_again w) evs) =
      post_hydration_log w @ map Enter post_hydration_methods) \<and>
   (credentials (run (mount_again w) evs) \<noteq> Fulfilled \<or>
    hydration (run (mount_again w) evs) \<noteq> Fulfilled \<longrightarrow>
      post_hydration_log (run (mount_again w) evs) = post_hydration_log w) \<and>
   (credentials (run (mount_again w) evs) = Fulfilled \<and>
    hydration (run (mount_again w) evs) = Fulfilled \<longrightarrow>
      post_hydration_log (run (mount_again w) (evs @ later)) =
        post_hydration_log w @ map Enter post_hydration_methods) \<and>
   (credentials (run (mount_again w) evs) = Rejected \<longrightarrow>
      post_hydration_log (run (mount_again w) (evs @ later)) = post_hydration_log w)"
proof -
  let ?v = "run (mount_again w) evs"
  let ?u = "run (mount_again w) (evs @ later)"
  have now: "sequenced (post_hydration_log w) ?v"
    by (rule sequenced_run) (rule sequenced_mount_again)
  have then': "sequenced (post_hydration_log w) ?u"
    by (rule sequenced_run) (rule sequenced_mount_again)
  have u: "?u = run ?v later" by (rule run_append)
  have a: "post_hydration_log ?v = post_hydration_log w \<or>
      post_hydration_log ?v = post_hydration_log w @ map Enter post_hydration_methods"
    using now by (simp add: sequenced_def)
  have b: "post_hydration_log ?v = post_hydration_log w"
    if "credentials ?v \<noteq> Fulfilled \<or> hydration ?v \<noteq> Fulfilled"
    using now that by (auto simp: sequenced_def promise_all_def split: promise.splits if_splits)
  have c: "post_hydration_log ?u = post_hydration_log w @ map Enter post_hydration_methods"
    if "credentials ?v = Fulfilled \<and> hydration ?v = Fulfilled"
  proof -
    from that have "credentials ?u = Fulfilled" "hydration ?u = Fulfilled"
      unfolding u by (simp_all add: run_credentials run_hydration)
    with then' show ?thesis by (simp add: sequenced_def promise_all_def)
  qed
  have d: "post_hydration_log ?u = post_hydration_log w" if "credentials ?v = Rejected"
  proof -
    from that have "credentials ?u = Rejected"
      unfolding u by (simp add: run_credentials_rejected)
    with then' show ?thesis by (simp add: sequenced_def promise_all_def)
  qed
  from a b c d show ?thesis by blast
qed

text \<open>
  The first mount of a process, with three more store notifications after the sequence has
  run; a first mount whose credential load is rejected after the store has hydrated; and a
  second mount, after the first instance has run the sequence and was unmounted.
\<close>

theorem C5_sequence_per_mount_witness:
  "progress sample_env \<noteq> AwaitingAll \<and> \<not> subscribed sample_env \<and>
   credentials (run (mount_again sample_env) [StoreChanged True, CredentialsLoaded]) = Fulfilled \<and>
   hydration (run (mount_again sample_env) [StoreChanged True, CredentialsLoaded]) = Fulfilled \<and>
   post_hydration_log (run (mount_again sample_env)
     ([StoreChanged True, CredentialsLoaded] @
      [StoreChanged True, StoreChanged False, StoreChanged True])) =
     [Enter M_handleHydrationComplete, Enter M_autoUpdateTimezone, Enter M_setDeviceToken,
      Enter M_setStartupThemes, Enter M_handleNotification, Enter M_loadSystemEmojis] \<and>
   credentials (run (mount_again sample_env) [StoreChanged True, CredentialsFailed]) = Rejected \<and>
   post_hydration_log (run (mount_again sample_env)
     ([StoreChanged True, CredentialsFailed] @ [StoreChanged True])) = [] \<and>
   progress (run (boot (sample_env\<lparr>hydrationComplete := True\<rparr>))
     [CredentialsLoaded, Unmount]) \<noteq> AwaitingAll \<and>
   \<not> subscribed (run (boot (sample_env\<lparr>hydrationComplete := True\<rparr>))
     [CredentialsLoaded, Unmount]) \<and>
   post_hydration_log
     (run (mount_again (run (boot (sample_env\<lparr>hydrationComplete := True\<rparr>))
            [CredentialsLoaded, Unmount]))
        ([CredentialsLoaded] @ [StoreChanged True])) =
     post_hydration_log (run (boot (sample_env\<lparr>hydrationComplete := True\<rparr>))
       [CredentialsLoaded, Unmount]) @
     [Enter M_handleHydrationComplete, Enter M_autoUpdateTimezone, Enter M_setDeviceToken,
      Enter M_setStartupThemes, Enter M_handleNotification, Enter M_loadSystemEmojis]"
  using C5_sequence_per_mount [of sample_env "[StoreChanged True, CredentialsLoaded]"
      "[StoreChanged True, StoreChanged False, StoreChanged True]"]
    C5_sequence_per_mount [of sample_env "[StoreChanged True, CredentialsFailed]"
      "[StoreChanged True]"]
    C5_sequence_per_mount
      [of "run (boot (sample_env\<lparr>hydrationComplete := True\<rparr>)) [CredentialsLoaded, Unmount]"
        "[CredentialsLoaded]" "[StoreChanged True]"]
  by (simp add: run_defs mount_again_def post_hydration_log_def)

text \<open>
  Exactly once per process fails both ways. When the credential load is rejected the
  sequence never runs, although the store has hydrated. And nothing outside the instance
  guards the sequence: after the first instance has run it and was unmounted, a second mount
  in the same process runs it again.
\<close>

theorem C5_counterexample:
  "post_hydration_log (run (boot sample_env)
     [StoreChanged True, CredentialsFailed, StoreChanged True]) = [] \<and>
   post_hydration_log
     (run (mount_again (run (boot (sample_env\<lparr>hydrationComplete := True\<rparr>))
            [CredentialsLoaded, Unmount]))
        [CredentialsLoaded]) =
     [Enter M_handleHydrationComplete, Enter M_autoUpdateTimezone, Enter M_setDeviceToken,
      Enter M_setStartupThemes, Enter M_handleNotification, Enter M_loadSystemEmojis,
      Enter M_handleHydrationComplete, Enter M_autoUpdateTimezone, Enter M_setDeviceToken,
      Enter M_setStartupThemes, Enter M_handleNotification, Enter M_loadSystemEmojis]"
  by (simp add: run_defs mount_again_def post_hydration_log_def)

subsection \<open>C6\<close>

text \<open>
  C6: if the store reports \<open>hydrationComplete\<close> when the component mounts, the waiter
  resolves its promise and never subscribes, in the whole execution. Otherwise it subscribes
  once; as long as no store notification carries \<open>hydrationComplete = true\<close> the
  subscription stays and the promise is pending; from the first such notification on, the
  waiter has unsubscribed once and then resolved, and the subscription is gone.
\<close>

theorem C6_waiter_subscription:
  "(hydrationComplete env \<longrightarrow>
      waiter_log (run (boot env) evs) = [Promise_resolve] \<and>
      hydration (run (boot env) evs) = Fulfilled \<and> \<not> subscribed (run (boot env) evs)) \<and>
   (\<not> hydrationComplete env \<and> StoreChanged True \<notin> set evs \<longrightarrow>
      waiter_log (run (boot env) evs) = [Store_subscribe] \<and>
      hydration (run (boot env) evs) = Pending \<and> subscribed (run (boot env) evs)) \<and>
   (\<not> hydrationComplete env \<and> StoreChanged True \<in> set evs \<longrightarrow>
      waiter_log (run (boot env) evs) = [Store_subscribe, Store_unsubscribe, Promise_resolve] \<and>
      hydration (run (boot env) evs) = Fulfilled \<and> \<not> subscribed (run (boot env) evs))"
proof (cases "hydrationComplete env")
  case True
  then have "\<not> subscribed (boot env)" by (simp add: boot_fields)
  from run_waiter_unsubscribed [OF this, of evs] True show ?thesis
    by (simp add: waiter_log_def boot_fields)
next
  case False
  then have "subscribed (boot env)" by (simp add: boot_fields)
  from run_waiter_subscribed [OF this, of evs] False show ?thesis
    by (simp add: waiter_log_def boot_fields)
qed

text \<open>
  A store hydrated at mount, a store that hydrates at its second notification, and a store
  that has not hydrated yet.
\<close>

theorem C6_waiter_subscription_witness:
  "hydrationComplete (sample_env\<lparr>hydrationComplete := True\<rparr>) \<and>
   waiter_log (run (boot (sample_env\<lparr>hydrationComplete := True\<rparr>))
     [StoreChanged True, CredentialsLoaded]) = [Promise_resolve] \<and>
   \<not> subscribed (run (boot (sample_env\<lparr>hydrationComplete := True\<rparr>))
     [StoreChanged True, CredentialsLoaded]) \<and>
   \<not> hydrationComplete sample_env \<and>
   StoreChanged True \<in> set [StoreChanged False, StoreChanged True, StoreChanged True] \<and>
   waiter_log (run (boot sample_env) [StoreChanged False, StoreChanged True, StoreChanged True]) =
     [Store_subscribe, Store_unsubscribe, Promise_resolve] \<and>
   \<not> subscribed (run (boot sample_env)
     [StoreChanged False, StoreChanged True, StoreChanged True]) \<and>
   StoreChanged True \<notin> set [StoreChanged False, CredentialsLoaded] \<and>
   subscribed (run (boot sample_env) [StoreChanged False, CredentialsLoaded])"
  using C6_waiter_subscription [of "sample_env\<lparr>hydrationComplete := True\<rparr>"
      "[StoreChanged True, CredentialsLoaded]"]
    C6_waiter_subscription [of sample_env
      "[StoreChanged False, StoreChanged True, StoreChanged True]"]
    C6_waiter_subscription [of sample_env "[StoreChanged False, CredentialsLoaded]"]
  by (simp add: sample_env_def)

subsection \<open>C7\<close>

text \<open>
  C7: on a platform other than android, the launch decision makes exactly one call: the
  deferred relaunch \<open>app.setShouldRelaunchWhenActive(true)\<close> when
  \<open>AppState.currentState\<close> is not \<open>active\<close>, and \<open>app.launchApp()\<close> when it is; never
  both and never none. It holds of \<open>launchForiOS\<close> and of the whole continuation of
  \<open>launchWhenReady\<close>.
\<close>

theorem C7_foreground_launch:
  "platformOS w \<noteq> ''android'' \<Longrightarrow>
   launch_log (launchForiOS w) =
     launch_log w @ (if currentState w = ''active'' then [App_launchApp]
                     else [App_setShouldRelaunchWhenActive True]) \<and>
   launch_log (launchWhenReady_resume w) =
     launch_log w @ (if currentState w = ''active'' then [App_launchApp]
                     else [App_setShouldRelaunchWhenActive True])"
  by (simp add: launch_log_def resume_launch_log launchForiOS_def Let_def)

text \<open>iOS in the background and iOS in the foreground.\<close>

theorem C7_foreground_launch_witness:
  "platformOS (sample_env\<lparr>currentState := ''background''\<rparr>) \<noteq> ''android'' \<and>
   launch_log (launchWhenReady_resume (sample_env\<lparr>currentState := ''background''\<rparr>)) =
     [App_setShouldRelaunchWhenActive True] \<and>
   platformOS sample_env \<noteq> ''android'' \<and>
   launch_log (launchWhenReady_resume sample_env) = [App_launchApp]"
  using C7_foreground_launch [of "sample_env\<lparr>currentState := ''background''\<rparr>"]
    C7_foreground_launch [of sample_env]
  by (simp add: sample_env_def launch_log_def)

subsection \<open>C8\<close>

text \<open>
  C8, as amended: the reply dispatch is not awaited. When the record read is completed, the
  resolver calls the dispatcher and goes on; \<open>launchWhenReady\<close> issues the launch decision
  and returns while the promise of the dispatcher is still pending. When that promise
  settles later, fulfilled or rejected, neither the progress of \<open>launchWhenReady\<close> nor the
  log changes: a failure of the dispatch is not caught in the file and does not reach the
  caller either.
\<close>

theorem C8_reply_not_awaited:
  "(notificationData w = Some n \<and> n_completed n \<longrightarrow>
      replyPromise (handleNotification w) = Some Pending \<and>
      replyPromise (launchWhenReady_resume w) = Some Pending \<and>
      progress (launchWhenReady_resume w) = Returned) \<and>
   progress (step w (ReplySettled ok)) = progress w \<and>
   trace (step w (ReplySettled ok)) = trace w"
  by (simp add: step.simps resume_fields replyPromise_handleNotification
      launchWhenReady_resume_def Let_def replyPromise_handleHydrationComplete)

text \<open>A cold start through a completed reply.\<close>

theorem C8_reply_not_awaited_witness:
  "notificationData (sample_env\<lparr>deviceNotification := Some sample_reply\<rparr>) =
     Some sample_reply \<and> n_completed sample_reply \<and>
   replyPromise (launchWhenReady_resume (sample_env\<lparr>deviceNotification := Some sample_reply\<rparr>)) =
     Some Pending \<and>
   progress (launchWhenReady_resume (sample_env\<lparr>deviceNotification := Some sample_reply\<rparr>)) =
     Returned"
  using C8_reply_not_awaited
    [of "sample_env\<lparr>deviceNotification := Some sample_reply\<rparr>" sample_reply]
  by (simp add: notificationData_def getNotification_def sample_env_def sample_reply_def)

text \<open>
  The orchestrator does not wait: after the credentials load it has called the dispatcher,
  called \<open>app.launchApp()\<close> and returned, with the promise of the dispatcher pending; the
  rejection of that promise afterwards leaves \<open>launchWhenReady\<close> returned, not thrown.
\<close>

theorem C8_counterexample:
  "replyPromise (run (boot (sample_env\<lparr>hydrationComplete := True,
      deviceNotification := Some sample_reply\<rparr>)) [CredentialsLoaded]) = Some Pending \<and>
   progress (run (boot (sample_env\<lparr>hydrationComplete := True,
      deviceNotification := Some sample_reply\<rparr>)) [CredentialsLoaded]) = Returned \<and>
   launch_log (run (boot (sample_env\<lparr>hydrationComplete := True,
      deviceNotification := Some sample_reply\<rparr>)) [CredentialsLoaded]) = [App_launchApp] \<and>
   replyPromise (run (boot (sample_env\<lparr>hydrationComplete := True,
      deviceNotification := Some sample_reply\<rparr>)) [CredentialsLoaded, ReplySettled False]) =
     Some Rejected \<and>
   progress (run (boot (sample_env\<lparr>hydrationComplete := True,
      deviceNotification := Some sample_reply\<rparr>)) [CredentialsLoaded, ReplySettled False]) =
     Returned"
  by (simp add: run_defs launch_log_def)

subsection \<open>C9\<close>

text \<open>
  C9: in every execution the instance field \<open>unsubscribeFromStore\<close> is null, and the log
  holds no entry of \<open>listenForHydration\<close> or \<open>configurePushNotifications\<close>, no call of the
  notification configuration, and no call through the guarded body at the head of
  \<open>handleHydrationComplete\<close>.
\<close>

theorem C9_dead_paths:
  "unsubscribeFromStore (run (boot env) evs) = None \<and> dead_log (run (boot env) evs) = []"
  using consistent_reach [of env evs] by (simp add: consistent_def)

text \<open>An execution that runs the post-hydration sequence.\<close>

theorem C9_dead_paths_witness:
  "unsubscribeFromStore (run (boot sample_env) [StoreChanged True, CredentialsLoaded]) = None \<and>
   dead_log (run (boot sample_env) [StoreChanged True, CredentialsLoaded]) = []"
  using C9_dead_paths [of sample_env "[StoreChanged True, CredentialsLoaded]"]
  by simp

subsection \<open>C10\<close>

text \<open>
  C10: when the notification layer returns null and no reply payload is cached on the app
  state, the resolver changes nothing but the log, to which it adds only its own entry: no
  reply dispatch, no clear operation, every other field of the world as before.
\<close>

theorem C10_no_record_no_effect:
  "getNotification w = None \<Longrightarrow> replyNotificationData w = None \<Longrightarrow>
   handleNotification w = log (Enter M_handleNotification) w"
  by (simp add: handleNotification_def notificationData_def getNotification_def Let_def)

text \<open>A cold start with nothing queued.\<close>

theorem C10_no_record_no_effect_witness:
  "getNotification sample_env = None \<and> replyNotificationData sample_env = None \<and>
   handleNotification sample_env = log (Enter M_handleNotification) sample_env"
  using C10_no_record_no_effect [of sample_env]
  by (simp add: getNotification_def sample_env_def)

end
